theory Spec2Isabelle
  imports Main
begin

section \<open>Errors\<close>

text \<open>
  Go's \<^verbatim>\<open>error\<close> values that occur in the package. The three sentinels are package
  variables created with \<^verbatim>\<open>errors.New\<close>; each is equal only to itself.
  \<^verbatim>\<open>ErrUnhandledResponse\<close> is the sentinel of \<^verbatim>\<open>httpc.go\<close>;
  \<^verbatim>\<open>ErrSkipHandler\<close> and \<^verbatim>\<open>ErrNotHandled\<close> are the sentinels of the
  \<^verbatim>\<open>Endpoint\<close> revision of the package. \<open>ErrorString\<close> stands for any other leaf
  error, \<open>WrapError\<close> for an error built with \<^verbatim>\<open>fmt.Errorf("...%w", err)\<close> and
  \<open>JoinError\<close> for \<^verbatim>\<open>errors.Join\<close>. \<open>UnusedPathValueError\<close> carries the URL,
  the name and the value. \<open>ProblemDetails\<close> is a \<^verbatim>\<open>*problem.Details\<close> used as an
  error: the pointer may be nil (\<open>None\<close>), and the error holding it is still not nil.
  A nil error is \<open>None\<close> of \<open>error option\<close>.
\<close>

record url =
  Scheme :: string
  Host :: string
  Path :: string
  RawQuery :: string

record Details =
  Title :: string
  Status :: int
  Detail :: string

datatype error =
    ErrUnhandledResponse
  | ErrSkipHandler
  | ErrNotHandled
  | ErrorString string
  | WrapError string error
  | JoinError "error list"
  | UnusedPathValueError url string string
  | ProblemDetails "Details option"

text \<open>
  \<^verbatim>\<open>errors.Is(err, target)\<close> for a non-nil \<^verbatim>\<open>err\<close>: the error itself is compared
  with the target, then the errors it unwraps to, depth first.
\<close>

fun errors_Is :: "error \<Rightarrow> error \<Rightarrow> bool" where
  "errors_Is (WrapError m e) t = (WrapError m e = t \<or> errors_Is e t)"
| "errors_Is (JoinError es) t = (JoinError es = t \<or> list_ex (\<lambda>e. errors_Is e t) es)"
| "errors_Is e t = (e = t)"

section \<open>Requests and responses\<close>

text \<open>
  \<^verbatim>\<open>http.Header\<close> is a map from header names to their values. \<^verbatim>\<open>Header.Get\<close>
  returns the first value stored under the name, or the empty string; \<^verbatim>\<open>Header.Set\<close>
  replaces the values stored under the name by the single new one. Names are looked up
  in their canonical form, which \<^verbatim>\<open>"Content-Type"\<close> already has.
\<close>

type_synonym header = "string \<rightharpoonup> string list"

definition Header_Get :: "header \<Rightarrow> string \<Rightarrow> string" where
  "Header_Get h key = (case h key of None \<Rightarrow> [] | Some [] \<Rightarrow> [] | Some (v # _) \<Rightarrow> v)"

definition Header_Set :: "header \<Rightarrow> string \<Rightarrow> string \<Rightarrow> header" where
  "Header_Set h key v = h(key \<mapsto> [v])"

text \<open>
  An \<^verbatim>\<open>io.ReadCloser\<close>: \<open>unread\<close> are the bytes that reading can still deliver;
  \<open>read_err\<close> is the error reading ends with once they are consumed (\<open>None\<close> for
  \<^verbatim>\<open>io.EOF\<close>); \<open>close_err\<close> is what \<^verbatim>\<open>Close\<close> returns; \<open>closed\<close> tells
  whether \<^verbatim>\<open>Close\<close> has been called; \<open>closed_read_err\<close> is the error of a read after
  \<^verbatim>\<open>Close\<close> (\<open>None\<close> for a reader that ignores \<^verbatim>\<open>Close\<close>, as one wrapped by
  \<^verbatim>\<open>io.NopCloser\<close> does; the bodies of net/http fail such a read).
\<close>

record body =
  unread :: string
  read_err :: "error option"
  close_err :: "error option"
  closed :: bool
  closed_read_err :: "error option"

text \<open>\<^verbatim>\<open>io.Copy(io.Discard, b)\<close>: read until the end or the first error.\<close>

definition io_Copy_Discard :: "body \<Rightarrow> error option \<times> body" where
  "io_Copy_Discard b =
     (if closed b \<and> closed_read_err b \<noteq> None then (closed_read_err b, b)
      else (read_err b, b\<lparr>unread := []\<rparr>))"

definition Body_Close :: "body \<Rightarrow> error option \<times> body" where
  "Body_Close b = (close_err b, b\<lparr>closed := True\<rparr>)"

text \<open>\<^verbatim>\<open>io.NopCloser(bytes.NewReader(data))\<close>\<close>

definition io_NopCloser_bytes_NewReader :: "string \<Rightarrow> body" where
  "io_NopCloser_bytes_NewReader data =
     \<lparr>unread = data, read_err = None, close_err = None, closed = False, closed_read_err = None\<rparr>"

text \<open>
  The fields of \<^verbatim>\<open>http.Response\<close> and \<^verbatim>\<open>http.Request\<close> that the package uses. A
  nil \<^verbatim>\<open>Body\<close> or \<^verbatim>\<open>GetBody\<close> of a request is \<open>None\<close>; a \<^verbatim>\<open>GetBody\<close>
  function is given by the reader and the error it returns.
\<close>

record response =
  StatusCode :: int
  Header :: header
  Body :: body

record request =
  Method :: string
  URL :: url
  Header :: header
  ContentLength :: int
  Body :: "body option"
  GetBody :: "(body \<times> error option) option"

section \<open>Handlers\<close>

text \<open>
  A \<^verbatim>\<open>Handler\<close> receives the destination pointer and the response pointer, may write
  through both (and to anything else it captured), and returns an error. It is a
  function from the state it can reach to the returned error and the new state.
\<close>

type_synonym 's Handler = "'s \<Rightarrow> error option \<times> 's"

text \<open>
  \<^verbatim>\<open>
  func (h HandlerChain) HandleResponse(dst any, resp *http.Response) error {
      for i := range h {
          if err := h[i].HandleResponse(dst, resp); err == nil || !errors.Is(err, ErrUnhandledResponse) {
              return err
          }
      }
      return ErrUnhandledResponse
  }
  \<close>
\<close>

fun HandlerChain_HandleResponse :: "'s Handler list \<Rightarrow> 's Handler" where
  "HandlerChain_HandleResponse [] s = (Some ErrUnhandledResponse, s)"
| "HandlerChain_HandleResponse (h # hs) s =
     (case h s of
        (None, s') \<Rightarrow> (None, s')
      | (Some err, s') \<Rightarrow>
          if \<not> errors_Is err ErrUnhandledResponse then (Some err, s')
          else HandlerChain_HandleResponse hs s')"

text \<open>\<^verbatim>\<open>ErrorHandler(err)\<close>: the handler that returns the given error.\<close>

definition ErrorHandler :: "error option \<Rightarrow> 's Handler" where
  "ErrorHandler err = (\<lambda>s. (err, s))"

subsection \<open>Handlers of responses\<close>

text \<open>
  The handlers of the package reach the destination \<^verbatim>\<open>dst\<close>, the response
  \<^verbatim>\<open>resp\<close> and the rest of the program's state, \<open>world\<close>.
\<close>

record ('d, 'w) hstate =
  dst :: 'd
  resp :: response
  world :: 'w

text \<open>
  \<^verbatim>\<open>
  func ConditionalHandler(cond func(*http.Response) bool, handler Handler) HandlerFunc {
      return func(dst any, resp *http.Response) error {
          if !cond(resp) {
              return ErrUnhandledResponse
          }
          return handler.HandleResponse(dst, resp)
      }
  }
  \<close>
  The conditions that the package passes only read the response.
\<close>

definition ConditionalHandler ::
  "(response \<Rightarrow> bool) \<Rightarrow> ('d, 'w) hstate Handler \<Rightarrow> ('d, 'w) hstate Handler" where
  "ConditionalHandler cond handler =
     (\<lambda>s. if \<not> cond (resp s) then (Some ErrUnhandledResponse, s) else handler s)"

text \<open>
  \<^verbatim>\<open>strings.Cut(s, sep)\<close> for a separator of one byte: the text before the first
  separator, the text after it, and whether the separator was found; without a separator
  the result is \<^verbatim>\<open>s, "", false\<close>.
\<close>

fun strings_Cut :: "string \<Rightarrow> char \<Rightarrow> string \<times> string \<times> bool" where
  "strings_Cut [] sep = ([], [], False)"
| "strings_Cut (c # cs) sep =
     (if c = sep then ([], cs, True)
      else (case strings_Cut cs sep of (before, after, found) \<Rightarrow> (c # before, after, found)))"

text \<open>
  \<^verbatim>\<open>
  func ContentTypeHandler(contentType string, handler Handler) HandlerFunc {
      return ConditionalHandler(
          func(resp *http.Response) bool {
              value := resp.Header.Get("Content-Type")
              if value == contentType {
                  return true
              }
              // Try to match without parameters
              value, _, _ = strings.Cut(value, ";")
              return value == contentType
          },
          handler,
      )
  }
  \<close>
\<close>

definition ContentTypeHandler ::
  "string \<Rightarrow> ('d, 'w) hstate Handler \<Rightarrow> ('d, 'w) hstate Handler" where
  "ContentTypeHandler contentType handler =
     ConditionalHandler
       (\<lambda>resp.
          let value = Header_Get (response.Header resp) ''Content-Type'' in
          if value = contentType then True
          else (case strings_Cut value (CHR '';'') of (value', _, _) \<Rightarrow> value' = contentType))
       handler"

text \<open>
  \<^verbatim>\<open>
  func StatusHandler(statusCode int, handler Handler) HandlerFunc {
      return ConditionalHandler(
          func(resp *http.Response) bool {
              return resp.StatusCode == statusCode
          },
          handler,
      )
  }
  \<close>
\<close>

definition StatusHandler :: "int \<Rightarrow> ('d, 'w) hstate Handler \<Rightarrow> ('d, 'w) hstate Handler" where
  "StatusHandler statusCode handler =
     ConditionalHandler (\<lambda>resp. StatusCode resp = statusCode) handler"

text \<open>
  \<^verbatim>\<open>
  func discardBody(resp *http.Response) (err error) {
      defer func() {
          if cErr := resp.Body.Close(); cErr != nil && err == nil {
              err = cErr
          }
      }()
      _, err = io.Copy(io.Discard, resp.Body)
      return err
  }
  \<close>
\<close>

definition discardBody :: "response \<Rightarrow> error option \<times> response" where
  "discardBody r =
     (case io_Copy_Discard (response.Body r) of
        (err, b) \<Rightarrow>
          (case Body_Close b of
             (cErr, b') \<Rightarrow>
               (if cErr \<noteq> None \<and> err = None then cErr else err, r\<lparr>response.Body := b'\<rparr>)))"

definition DiscardBodyHandler :: "('d, 'w) hstate Handler" where
  "DiscardBodyHandler = (\<lambda>s. case discardBody (resp s) of (err, r) \<Rightarrow> (err, s\<lparr>resp := r\<rparr>))"

text \<open>
  \<^verbatim>\<open>problem.ContentType\<close> is the media type of RFC 9457, a constant of the package
  \<^verbatim>\<open>github.com/nussjustin/problem\<close>.
\<close>

definition problem_ContentType :: string where
  "problem_ContentType = ''application/problem+json''"

text \<open>
  \<^verbatim>\<open>
  func ProblemHandler() HandlerFunc {
      return ContentTypeHandler(
          problem.ContentType,
          HandlerFunc(func(_ any, resp *http.Response) (err error) {
              defer func() {
                  if cErr := resp.Body.Close(); cErr != nil && err == nil {
                      err = cErr
                  }
              }()
              details, err := problem.From(resp)
              if err != nil {
                  return err
              }
              return details
          }),
      )
  }
  \<close>
  \<^verbatim>\<open>problem.From\<close> belongs to another package and is a parameter: from the response it
  gives an error or a \<^verbatim>\<open>*problem.Details\<close>, and the response as reading has left it.
\<close>

definition ProblemHandler ::
  "(response \<Rightarrow> (error + Details option) \<times> response) \<Rightarrow> ('d, 'w) hstate Handler" where
  "ProblemHandler problem_From =
     ContentTypeHandler problem_ContentType
       (\<lambda>s. case problem_From (resp s) of
              (res, r) \<Rightarrow>
                (let err = (case res of Inl e \<Rightarrow> Some e | Inr details \<Rightarrow> Some (ProblemDetails details))
                 in case Body_Close (response.Body r) of
                      (cErr, b) \<Rightarrow>
                        (if cErr \<noteq> None \<and> err = None then cErr else err,
                         s\<lparr>resp := r\<lparr>response.Body := b\<rparr>\<rparr>)))"

subsection \<open>Observing which handlers run\<close>

text \<open>
  A handler result makes a chain go on to the next handler when it is a non-nil error
  that \<^verbatim>\<open>errors.Is\<close> matches with \<^verbatim>\<open>ErrUnhandledResponse\<close>.
\<close>

definition falls_through :: "error option \<Rightarrow> bool" where
  "falls_through r = (case r of None \<Rightarrow> False | Some err \<Rightarrow> errors_Is err ErrUnhandledResponse)"

text \<open>
  To state which handlers a chain invokes, a handler is wrapped so that every invocation
  appends its position and its result to a list of calls kept beside the state. The
  wrapped handler cannot see or change that list.
\<close>

definition recording :: "nat \<Rightarrow> 's Handler \<Rightarrow> ('s \<times> (nat \<times> error option) list) Handler" where
  "recording i h = (\<lambda>(s, calls). case h s of (r, s') \<Rightarrow> (r, (s', calls @ [(i, r)])))"

definition recording_chain ::
  "nat \<Rightarrow> 's Handler list \<Rightarrow> ('s \<times> (nat \<times> error option) list) Handler list" where
  "recording_chain n hs = map (\<lambda>(i, h). recording i h) (enumerate n hs)"

section \<open>Fetch\<close>

text \<open>
  \<^verbatim>\<open>
  type fetchContext struct {
      Client  *http.Client
      Request *http.Request
      Handler Handler
  }
  type FetchOption func(*fetchContext) error
  \<close>
  A client is a value of a type \<open>'c\<close> and a handler a value of a type \<open>'h\<close>; what
  \<^verbatim>\<open>Client.Do\<close> and \<^verbatim>\<open>Handler.HandleResponse\<close> do with them is given by the
  environment below. \<open>Request\<close> is the request that the pointer refers to: the options
  of the package write through the pointer and never replace it, so it is the request
  \<^verbatim>\<open>req\<close> that \<^verbatim>\<open>FetchWithResponse\<close> created. An option may also change the rest of
  the program's state, which is passed along with the context.
\<close>

record ('c, 'h) fetchContext =
  Client :: 'c
  Request :: request
  Handler :: 'h

type_synonym ('c, 'h, 'w) FetchOption =
  "('c, 'h) fetchContext \<times> 'w \<Rightarrow> error option \<times> ('c, 'h) fetchContext \<times> 'w"

text \<open>
  What \<^verbatim>\<open>Client.Do\<close> returns: a response and a nil error, or an error, with which
  net/http may still return a response (whose body is already closed).
\<close>

datatype do_result = Response response | Failure "response option" error

text \<open>
  What \<^verbatim>\<open>FetchWithResponse\<close> takes from outside the package: the function
  \<^verbatim>\<open>http.NewRequestWithContext\<close> (called with a nil body), the variable
  \<^verbatim>\<open>http.DefaultClient\<close>, the method \<^verbatim>\<open>Do\<close> of clients, the value of the
  exported variable \<^verbatim>\<open>DefaultHandlers\<close> at the time of the call, the method
  \<^verbatim>\<open>HandleResponse\<close> of handlers, and the zero value of the type parameter
  \<^verbatim>\<open>T\<close>.
\<close>

record ('c, 'h, 'd, 'w) env =
  http_NewRequestWithContext :: "string \<Rightarrow> string \<Rightarrow> error + request"
  http_DefaultClient :: 'c
  Client_Do :: "'c \<Rightarrow> request \<Rightarrow> 'w \<Rightarrow> do_result \<times> 'w"
  DefaultHandlers :: 'h
  Handler_HandleResponse :: "'h \<Rightarrow> ('d, 'w) hstate Handler"
  zeroT :: 'd

text \<open>
  The loop of \<^verbatim>\<open>FetchWithResponse\<close> over the options:
  \<^verbatim>\<open>
  for _, opt := range opts {
      if err := opt(fetchCtx); err != nil {
          var zeroT T
          return zeroT, nil, err
      }
  }
  \<close>
\<close>

fun FetchWithResponse_opts ::
  "('c, 'h, 'w) FetchOption list \<Rightarrow> ('c, 'h) fetchContext \<times> 'w
     \<Rightarrow> error option \<times> ('c, 'h) fetchContext \<times> 'w" where
  "FetchWithResponse_opts [] st = (None, st)"
| "FetchWithResponse_opts (opt # opts) st =
     (case opt st of
        (Some err, st') \<Rightarrow> (Some err, st')
      | (None, st') \<Rightarrow> FetchWithResponse_opts opts st')"

text \<open>
  \<^verbatim>\<open>
  req, err := http.NewRequestWithContext(ctx, method, url, nil)
  if err != nil {
      var zeroT T
      return zeroT, nil, err
  }
  fetchCtx := &fetchContext{Client: http.DefaultClient, Request: req, Handler: DefaultHandlers}
  for _, opt := range opts { ... }
  resp, err := fetchCtx.Client.Do(req)
  if err != nil {
      var zeroT T
      return zeroT, resp, err
  }
  var t T
  if err := fetchCtx.Handler.HandleResponse(&t, resp); err != nil {
      var zeroT T
      return zeroT, resp, err
  }
  return t, resp, nil
  \<close>
  The response that is returned is given in the state in which the call leaves it.
\<close>

definition FetchWithResponse ::
  "('c, 'h, 'd, 'w) env \<Rightarrow> string \<Rightarrow> string \<Rightarrow> ('c, 'h, 'w) FetchOption list \<Rightarrow> 'w
     \<Rightarrow> ('d \<times> response option \<times> error option) \<times> 'w" where
  "FetchWithResponse env method url opts w =
     (case http_NewRequestWithContext env method url of
        Inl err \<Rightarrow> ((zeroT env, None, Some err), w)
      | Inr req \<Rightarrow>
          (case FetchWithResponse_opts opts
                  (\<lparr>Client = http_DefaultClient env, Request = req, Handler = DefaultHandlers env\<rparr>, w) of
             (Some err, fetchCtx, w1) \<Rightarrow> ((zeroT env, None, Some err), w1)
           | (None, fetchCtx, w1) \<Rightarrow>
               (case Client_Do env (Client fetchCtx) (Request fetchCtx) w1 of
                  (Failure r err, w2) \<Rightarrow> ((zeroT env, r, Some err), w2)
                | (Response r, w2) \<Rightarrow>
                    (case Handler_HandleResponse env (Handler fetchCtx)
                            \<lparr>dst = zeroT env, resp = r, world = w2\<rparr> of
                       (Some err, s) \<Rightarrow> ((zeroT env, Some (resp s), Some err), world s)
                     | (None, s) \<Rightarrow> ((dst s, Some (resp s), None), world s)))))"

text \<open>
  \<^verbatim>\<open>
  func Fetch[T any](ctx context.Context, method string, url string, opts ...FetchOption) (T, error) {
      t, resp, err := FetchWithResponse[T](ctx, method, url, opts...)
      if resp != nil {
          defer func() { _ = discardBody(resp) }()
      }
      return t, err
  }
  \<close>
  \<^verbatim>\<open>Fetch\<close> returns the value and the error. The model gives in addition the response
  that the call obtained, in its state when \<^verbatim>\<open>Fetch\<close> returns, and the state of the
  rest of the program.
\<close>

definition Fetch ::
  "('c, 'h, 'd, 'w) env \<Rightarrow> string \<Rightarrow> string \<Rightarrow> ('c, 'h, 'w) FetchOption list \<Rightarrow> 'w
     \<Rightarrow> ('d \<times> error option) \<times> response option \<times> 'w" where
  "Fetch env method url opts w =
     (case FetchWithResponse env method url opts w of
        ((t, r, err), w') \<Rightarrow>
          ((t, err), (case r of None \<Rightarrow> None | Some r' \<Rightarrow> Some (snd (discardBody r'))), w'))"

subsection \<open>Options\<close>

definition WithClient :: "'c \<Rightarrow> ('c, 'h, 'w) FetchOption" where
  "WithClient client = (\<lambda>(fetchCtx, w). (None, fetchCtx\<lparr>Client := client\<rparr>, w))"

definition WithHandler :: "'h \<Rightarrow> ('c, 'h, 'w) FetchOption" where
  "WithHandler h = (\<lambda>(ctx, w). (None, ctx\<lparr>Handler := h\<rparr>, w))"

definition WithHeader :: "string \<Rightarrow> string \<Rightarrow> ('c, 'h, 'w) FetchOption" where
  "WithHeader key v =
     (\<lambda>(ctx, w).
        (None, ctx\<lparr>Request := (Request ctx)\<lparr>request.Header := Header_Set (request.Header (Request ctx)) key v\<rparr>\<rparr>, w))"

text \<open>
  \<^verbatim>\<open>
  func WithBodyJSON(v any, opts ...jsontext.Options) FetchOption {
      return func(ctx *fetchContext) error {
          body, err := json.Marshal(v, opts...)
          if err != nil {
              return err
          }
          if ctx.Request.Header.Get("Content-Type") == "" {
              ctx.Request.Header.Set("Content-Type", "application/json")
          }
          ctx.Request.ContentLength = int64(len(body))
          ctx.Request.Body = io.NopCloser(bytes.NewReader(body))
          ctx.Request.GetBody = func() (io.ReadCloser, error) {
              return io.NopCloser(bytes.NewReader(body)), nil
          }
          return nil
      }
  }
  \<close>
  \<^verbatim>\<open>json.Marshal\<close>, with its options, is a parameter.
\<close>

definition WithBodyJSON :: "('v \<Rightarrow> error + string) \<Rightarrow> 'v \<Rightarrow> ('c, 'h, 'w) FetchOption" where
  "WithBodyJSON json_Marshal v =
     (\<lambda>(ctx, w).
        case json_Marshal v of
          Inl err \<Rightarrow> (Some err, ctx, w)
        | Inr data \<Rightarrow>
            (let req = Request ctx;
                 req1 = (if Header_Get (request.Header req) ''Content-Type'' = []
                         then req\<lparr>request.Header :=
                                    Header_Set (request.Header req) ''Content-Type'' ''application/json''\<rparr>
                         else req);
                 req2 = req1\<lparr>ContentLength := int (length data)\<rparr>;
                 req3 = req2\<lparr>request.Body := Some (io_NopCloser_bytes_NewReader data)\<rparr>;
                 req4 = req3\<lparr>GetBody := Some (io_NopCloser_bytes_NewReader data, None)\<rparr>
             in (None, ctx\<lparr>Request := req4\<rparr>, w)))"

subsection \<open>Path values\<close>

text \<open>
  \<^verbatim>\<open>url.PathEscape\<close>: every byte that may not stand in a path segment is replaced by
  \<^verbatim>\<open>%XX\<close> with upper-case hexadecimal digits. Letters, digits and
  \<^verbatim>\<open>- _ . ~ $ & + : = @\<close> are kept.
\<close>

definition is_digit :: "char \<Rightarrow> bool" where
  "is_digit c = (let n = (of_char c :: nat) in 48 \<le> n \<and> n \<le> 57)"

definition is_alnum :: "char \<Rightarrow> bool" where
  "is_alnum c =
     (let n = (of_char c :: nat) in (97 \<le> n \<and> n \<le> 122) \<or> (65 \<le> n \<and> n \<le> 90) \<or> (48 \<le> n \<and> n \<le> 57))"

definition shouldEscape :: "char \<Rightarrow> bool" where
  "shouldEscape c =
     (if is_alnum c then False
      else if c \<in> set ''-_.~'' then False
      else if c \<in> set ''$&+,/:;=?@'' then c = CHR ''/'' \<or> c = CHR '';'' \<or> c = CHR '','' \<or> c = CHR ''?''
      else True)"

definition upperhex :: "nat \<Rightarrow> char" where
  "upperhex n = ''0123456789ABCDEF'' ! n"

definition url_PathEscape :: "string \<Rightarrow> string" where
  "url_PathEscape s =
     concat (map (\<lambda>c. if shouldEscape c
                       then [CHR ''%'', upperhex (of_char c div 16), upperhex (of_char c mod 16)]
                       else [c]) s)"

text \<open>
  The template of a replacement is expanded as \<^verbatim>\<open>Regexp.Expand\<close> does: \<^verbatim>\<open>$$\<close> is a
  dollar sign, \<^verbatim>\<open>$name\<close> and \<^verbatim>\<open>${name}\<close> are the text of a group, where the name
  is the longest run of letters, digits and underscores, and a dollar sign followed by
  anything else is kept. \<open>regexp_extract\<close> (the function \<^verbatim>\<open>extract\<close> of package regexp) gives the name, its number (\<open>-1\<close> when it is not a
  number) and how many bytes of the template the reference takes. The templates built
  here hold ASCII bytes only.
\<close>

definition is_word_char :: "char \<Rightarrow> bool" where
  "is_word_char c = (is_alnum c \<or> c = CHR ''_'')"

fun parse_num :: "int \<Rightarrow> string \<Rightarrow> int" where
  "parse_num num [] = num"
| "parse_num num (c # cs) =
     (if \<not> is_digit c \<or> num \<ge> 100000000 then - 1
      else parse_num (num * 10 + (int (of_char c) - 48)) cs)"

definition regexp_extract :: "string \<Rightarrow> (string \<times> int \<times> nat) option" where
  "regexp_extract str =
     (case str of
        [] \<Rightarrow> None
      | c0 # _ \<Rightarrow>
          (let brace = (c0 = CHR ''{'');
               str' = (if brace then tl str else str);
               name = takeWhile is_word_char str';
               i = length name
           in if i = 0 then None
              else if brace \<and> (i \<ge> length str' \<or> str' ! i \<noteq> CHR ''}'') then None
              else Some (name,
                         (if hd name = CHR ''0'' \<and> length name > 1 then - 1 else parse_num 0 name),
                         (if brace then i + 2 else i))))"

text \<open>
  The text of group \<open>num\<close>; the groups of the pattern have no names, so a reference by
  name, like a reference to a group that is not there, gives the empty text.
\<close>

definition group_text :: "string list \<Rightarrow> int \<Rightarrow> string" where
  "group_text groups num =
     (if 0 \<le> num \<and> num < int (length groups) then groups ! nat num else [])"

function expand :: "string list \<Rightarrow> string \<Rightarrow> string" where
  "expand groups [] = []"
| "expand groups (c # template) =
     (if c \<noteq> CHR ''$'' then c # expand groups template
      else if template \<noteq> [] \<and> hd template = CHR ''$'' then CHR ''$'' # expand groups (tl template)
      else (case regexp_extract template of
              None \<Rightarrow> CHR ''$'' # expand groups template
            | Some (name, num, n) \<Rightarrow> group_text groups num @ expand groups (drop n template)))"
  by pat_completeness auto
termination
  by (relation "measure (\<lambda>(groups, template). length template)") auto

text \<open>
  The pattern of \<^verbatim>\<open>WithPathValue\<close> is
  \<^verbatim>\<open>regexp.MustCompile(fmt.Sprintf(`(^|/)\{%s\}(/|$)`, regexp.QuoteMeta(name)))\<close>:
  the start of the text or a slash, the name in braces, taken literally, and a slash or
  the end of the text. \<open>placeholder_match\<close> matches the name in braces and the second
  group at the head of a text and gives the second group and the text after the match;
  \<open>pattern_match\<close> matches the whole pattern at the head of a text, given whether
  that is where the whole text begins, and gives the texts of the match and of the two
  groups and the text after the match. Name and path are texts in UTF-8.
\<close>

definition placeholder_match :: "string \<Rightarrow> string \<Rightarrow> (string \<times> string) option" where
  "placeholder_match name s =
     (let lit = ''{'' @ name @ ''}'' in
      if take (length lit) s = lit then
        (case drop (length lit) s of
           [] \<Rightarrow> Some ([], [])
         | c # rest \<Rightarrow> if c = CHR ''/'' then Some (''/'', rest) else None)
      else None)"

definition pattern_match :: "string \<Rightarrow> bool \<Rightarrow> string \<Rightarrow> (string list \<times> string) option" where
  "pattern_match name at_start s =
     (case (if at_start then placeholder_match name s else None) of
        Some (g2, rest) \<Rightarrow> Some ([''{'' @ name @ ''}'' @ g2, [], g2], rest)
      | None \<Rightarrow>
          (case s of
             [] \<Rightarrow> None
           | c # s' \<Rightarrow>
               if c = CHR ''/'' then
                 (case placeholder_match name s' of
                    Some (g2, rest) \<Rightarrow> Some ([''/{'' @ name @ ''}'' @ g2, ''/'', g2], rest)
                  | None \<Rightarrow> None)
               else None))"

text \<open>
  \<^verbatim>\<open>pattern.ReplaceAllString(src, repl)\<close>: the matches are looked for from left to
  right, each search starting where the match before it ended; every match is replaced by
  the expanded template and the text between the matches is kept.
\<close>

function replace_from :: "string \<Rightarrow> string \<Rightarrow> bool \<Rightarrow> string \<Rightarrow> string" where
  "replace_from name repl at_start s =
     (case pattern_match name at_start s of
        Some (groups, rest) \<Rightarrow> expand groups repl @ replace_from name repl False rest
      | None \<Rightarrow> (case s of [] \<Rightarrow> [] | c # s' \<Rightarrow> c # replace_from name repl False s'))"
  by pat_completeness auto
termination
proof -
  have shorter: "length b < length s" if "drop k s = c # b" for k c and s b :: string
  proof -
    from that have "length (drop k s) = Suc (length b)" by simp
    then show ?thesis by simp
  qed
  show ?thesis
    by (relation "measure (\<lambda>(name, repl, at_start, s). length s)")
       (auto simp: pattern_match_def placeholder_match_def Let_def
             split: if_splits option.splits list.splits dest: shorter)
qed

definition pattern_ReplaceAllString :: "string \<Rightarrow> string \<Rightarrow> string \<Rightarrow> string" where
  "pattern_ReplaceAllString name src repl = replace_from name repl True src"

text \<open>
  \<^verbatim>\<open>
  func WithPathValue(name string, value string) FetchOption {
      pattern := regexp.MustCompile(fmt.Sprintf(`(^|/)\{%s\}(/|$)`, regexp.QuoteMeta(name)))
      return func(ctx *fetchContext) error {
          replaced := pattern.ReplaceAllString(ctx.Request.URL.Path, "${1}"+url.PathEscape(value)+"${2}")
          if ctx.Request.URL.Path == replaced {
              return &UnusedPathValueError{URL: ctx.Request.URL, Name: name, Value: value}
          }
          ctx.Request.URL.Path = replaced
          return nil
      }
  }
  \<close>
\<close>

definition WithPathValue :: "string \<Rightarrow> string \<Rightarrow> ('c, 'h, 'w) FetchOption" where
  "WithPathValue name v =
     (\<lambda>(ctx, w).
        let u = URL (Request ctx);
            replaced = pattern_ReplaceAllString name (Path u) (''${1}'' @ url_PathEscape v @ ''${2}'')
        in if Path u = replaced then (Some (UnusedPathValueError u name v), ctx, w)
           else (None, ctx\<lparr>Request := (Request ctx)\<lparr>URL := u\<lparr>Path := replaced\<rparr>\<rparr>\<rparr>, w))"

section \<open>The handlers of an Endpoint\<close>

text \<open>
  The revision of the package with \<^verbatim>\<open>Endpoint\<close> runs its handlers in
  \<^verbatim>\<open>Endpoint.Do\<close>:
  \<^verbatim>\<open>
  var t T
  var handled bool
  for _, h := range e.Handlers {
      handlerErr := h(&t, resp)
      if handlerErr == nil {
          handled = true
          break
      }
      if errors.Is(handlerErr, ErrSkipHandler) {
          continue
      }
      var zeroT T
      return zeroT, nil, handlerErr
  }
  if !handled {
      var zeroT T
      return zeroT, nil, ErrNotHandled
  }
  return t, resp, nil
  \<close>
  The loop ends by a return with an error (\<open>Inl\<close>) or leaves the value of
  \<^verbatim>\<open>handled\<close> (\<open>Inr\<close>).
\<close>

fun Endpoint_Do_loop :: "'s Handler list \<Rightarrow> 's \<Rightarrow> (error + bool) \<times> 's" where
  "Endpoint_Do_loop [] s = (Inr False, s)"
| "Endpoint_Do_loop (h # hs) s =
     (case h s of
        (None, s') \<Rightarrow> (Inr True, s')
      | (Some handlerErr, s') \<Rightarrow>
          if errors_Is handlerErr ErrSkipHandler then Endpoint_Do_loop hs s'
          else (Inl handlerErr, s'))"

text \<open>
  The error that \<^verbatim>\<open>Endpoint.Do\<close> returns after the loop, and the state the handlers
  have left.
\<close>

definition Endpoint_Do_handlers :: "'s Handler list \<Rightarrow> 's Handler" where
  "Endpoint_Do_handlers hs s =
     (case Endpoint_Do_loop hs s of
        (Inl handlerErr, s') \<Rightarrow> (Some handlerErr, s')
      | (Inr handled, s') \<Rightarrow> if \<not> handled then (Some ErrNotHandled, s') else (None, s'))"

text \<open>
  The renaming between the two revisions: \<^verbatim>\<open>ErrUnhandledResponse\<close> of the chain is
  \<^verbatim>\<open>ErrSkipHandler\<close> of the endpoint, also inside a wrapped or a joined error.
\<close>

fun rename :: "error \<Rightarrow> error" where
  "rename ErrUnhandledResponse = ErrSkipHandler"
| "rename ErrSkipHandler = ErrUnhandledResponse"
| "rename (WrapError m e) = WrapError m (rename e)"
| "rename (JoinError es) = JoinError (map rename es)"
| "rename e = e"

definition renamed :: "'s Handler \<Rightarrow> 's Handler" where
  "renamed h = (\<lambda>s. case h s of (r, s') \<Rightarrow> (map_option rename r, s'))"

text \<open>
  The result of the chain, renamed: a chain whose handlers all fell through returns
  \<^verbatim>\<open>ErrUnhandledResponse\<close>, where the endpoint returns \<^verbatim>\<open>ErrNotHandled\<close>.
\<close>

definition result_rename :: "error \<Rightarrow> error" where
  "result_rename e = (if e = ErrUnhandledResponse then ErrNotHandled else rename e)"

text \<open>A recorded call of a handler, with its result renamed.\<close>

definition renamed_call :: "nat \<times> error option \<Rightarrow> nat \<times> error option" where
  "renamed_call = (\<lambda>(i, r). (i, map_option rename r))"

section \<open>What the properties are stated with\<close>

text \<open>
  A response matches a content type when the value of its Content-Type header, as
  \<^verbatim>\<open>Header.Get\<close> gives it, is that content type, or is that content type once it is
  cut off at its first semicolon.
\<close>

definition content_type_matches :: "string \<Rightarrow> response \<Rightarrow> bool" where
  "content_type_matches contentType r =
     (let v = Header_Get (response.Header r) ''Content-Type''
      in v = contentType \<or> takeWhile (\<lambda>c. c \<noteq> CHR '';'') v = contentType)"






section \<open>Examples\<close>

text \<open>
  The handler of \<^verbatim>\<open>TestHandlerChain\<close>: it appends its text to the destination and
  returns the given error.
\<close>

definition test_handler :: "string \<Rightarrow> error option \<Rightarrow> (string list) Handler" where
  "test_handler txt err = (\<lambda>d. (err, d @ [txt]))"

text \<open>The counting handler of the tests: it counts its calls and returns nil.\<close>

definition countingHandler :: "('d, nat) hstate Handler" where
  "countingHandler = (\<lambda>s. (None, s\<lparr>world := Suc (world s)\<rparr>))"

text \<open>A response with status 200 and a JSON content type with a parameter.\<close>

definition json_response :: response where
  "json_response =
     \<lparr>StatusCode = 200,
      Header = [''Content-Type'' \<mapsto> [''application/json; charset=utf-8'']],
      Body = io_NopCloser_bytes_NewReader ''{}''\<rparr>"

definition json_state :: "(unit, nat) hstate" where
  "json_state = \<lparr>dst = (), resp = json_response, world = 0\<rparr>"

text \<open>
  A response body as net/http gives it: a read after \<^verbatim>\<open>Close\<close> fails.
\<close>

definition http_body :: "string \<Rightarrow> body" where
  "http_body data =
     \<lparr>unread = data, read_err = None, close_err = None, closed = False,
      closed_read_err = Some (ErrorString ''http: read on closed response body'')\<rparr>"

text \<open>A response that announces problem details and whose body is not JSON.\<close>

definition problem_response :: response where
  "problem_response =
     \<lparr>StatusCode = 400,
      Header = [''Content-Type'' \<mapsto> [''application/problem+json'']],
      Body = http_body ''invalid json, and more of it''\<rparr>"

definition problem_state :: "(string list, unit) hstate" where
  "problem_state = \<lparr>dst = [], resp = problem_response, world = ()\<rparr>"

text \<open>
  A \<^verbatim>\<open>problem.From\<close> that reads the first eight bytes of the body and fails to
  decode them.
\<close>

definition failing_From :: "response \<Rightarrow> (error + Details option) \<times> response" where
  "failing_From r =
     (Inl (ErrorString ''jsontext: invalid character''),
      r\<lparr>response.Body := (response.Body r)\<lparr>unread := drop 8 (unread (response.Body r))\<rparr>\<rparr>)"

text \<open>
  An environment: requests are created for every method without a space, the client
  answers every request with the response above, and the default handler is the
  problem handler.
\<close>

definition new_request :: "string \<Rightarrow> string \<Rightarrow> error + request" where
  "new_request method u =
     (if CHR '' '' \<in> set method then Inl (ErrorString ''net/http: invalid method'')
      else Inr \<lparr>Method = method,
                URL = \<lparr>Scheme = [], Host = [], Path = u, RawQuery = []\<rparr>,
                Header = Map.empty, ContentLength = 0, Body = None, GetBody = None\<rparr>)"

definition test_env :: "(unit, (string list, unit) hstate Handler, string list, unit) env" where
  "test_env =
     \<lparr>http_NewRequestWithContext = new_request,
      http_DefaultClient = (),
      Client_Do = (\<lambda>c req w. (Response problem_response, w)),
      DefaultHandlers = ProblemHandler failing_From,
      Handler_HandleResponse = (\<lambda>h. h),
      zeroT = []\<rparr>"

text \<open>The context of a request for a path, with nothing else in it.\<close>

definition ctx_at :: "string \<Rightarrow> (unit, unit) fetchContext" where
  "ctx_at p =
     \<lparr>Client = (),
      Request = \<lparr>Method = ''GET'',
                 URL = \<lparr>Scheme = [], Host = [], Path = p, RawQuery = []\<rparr>,
                 Header = Map.empty, ContentLength = 0, Body = None, GetBody = None\<rparr>,
      Handler = ()\<rparr>"


text \<open>
  The response above once the problem handler has read eight bytes of its body and
  closed it.
\<close>

definition abandoned_response :: response where
  "abandoned_response =
     problem_response\<lparr>response.Body := (http_body ''json, and more of it'')\<lparr>closed := True\<rparr>\<rparr>"

text \<open>The same context after a Content-Type header has been set.\<close>

definition ctx_typed :: "(unit, unit) fetchContext" where
  "ctx_typed =
     fst (snd (WithHeader ''Content-Type'' ''application/my-content-type'' (ctx_at ''/info'', ())))"

text \<open>A \<^verbatim>\<open>json.Marshal\<close> that encodes a number and fails on everything else.\<close>

definition test_Marshal :: "nat option \<Rightarrow> error + string" where
  "test_Marshal v =
     (case v of
        None \<Rightarrow> Inl (ErrorString ''json: cannot marshal from Go chan int'')
      | Some n \<Rightarrow> Inr (replicate n (CHR ''1'')))"

section \<open>Properties\<close>

subsection \<open>Auxiliary facts\<close>

lemma falls_through_simps:
  "falls_through None = False"
  "falls_through (Some e) = errors_Is e ErrUnhandledResponse"
  by (simp_all add: falls_through_def)

lemma recording_chain_Nil: "recording_chain n [] = []"
  by (simp add: recording_chain_def)

lemma recording_chain_Cons:
  "recording_chain n (h # hs) = recording n h # recording_chain (Suc n) hs"
  by (simp add: recording_chain_def)

lemma upt_shift: "[n..<n + Suc k] = n # [Suc n..<Suc n + k]"
  by (simp add: upt_conv_Cons del: upt_Suc)

text \<open>
  The calls of a recorded chain, started at position \<open>n\<close> with the calls \<open>c0\<close>
  already made.
\<close>

lemma chain_calls_gen:
  "HandlerChain_HandleResponse (recording_chain n hs) (s, c0) = (r, (s', calls)) \<Longrightarrow>
   \<exists>new. calls = c0 @ new \<and> HandlerChain_HandleResponse hs s = (r, s')
     \<and> map fst new = [n..<n + length new] \<and> length new \<le> length hs
     \<and> (\<forall>c\<in>set (butlast new). falls_through (snd c))
     \<and> (\<not> falls_through r \<longrightarrow> new \<noteq> [] \<and> snd (last new) = r)
     \<and> (falls_through r \<longrightarrow> length new = length hs \<and> r = Some ErrUnhandledResponse
           \<and> (\<forall>c\<in>set new. falls_through (snd c)))"
proof (induction hs arbitrary: n s c0)
  case Nil
  then show ?case by (auto simp: recording_chain_Nil falls_through_simps)
next
  case (Cons h hs)
  obtain r1 s1 where h: "h s = (r1, s1)" by (cases "h s")
  show ?case
  proof (cases "falls_through r1")
    case False
    with Cons.prems h have "r = r1" "s' = s1" "calls = c0 @ [(n, r1)]"
      by (auto simp: recording_chain_Cons recording_def falls_through_def
               split: option.splits if_splits)
    with False h show ?thesis
      by (auto simp: falls_through_def split: option.splits)
  next
    case True
    then obtain e where e: "r1 = Some e" "errors_Is e ErrUnhandledResponse"
      by (auto simp: falls_through_def split: option.splits)
    with Cons.prems h have
      "HandlerChain_HandleResponse (recording_chain (Suc n) hs) (s1, c0 @ [(n, r1)]) = (r, (s', calls))"
      by (simp add: recording_chain_Cons recording_def)
    from Cons.IH[OF this] obtain new where new:
      "calls = (c0 @ [(n, r1)]) @ new" "HandlerChain_HandleResponse hs s1 = (r, s')"
      "map fst new = [Suc n..<Suc n + length new]" "length new \<le> length hs"
      "\<forall>c\<in>set (butlast new). falls_through (snd c)"
      "\<not> falls_through r \<longrightarrow> new \<noteq> [] \<and> snd (last new) = r"
      "falls_through r \<longrightarrow> length new = length hs \<and> r = Some ErrUnhandledResponse
           \<and> (\<forall>c\<in>set new. falls_through (snd c))"
      by (elim exE conjE) (rule that, assumption+)
    let ?new = "(n, r1) # new"
    have 1: "calls = c0 @ ?new" using new(1) by simp
    have 2: "HandlerChain_HandleResponse (h # hs) s = (r, s')" using h e new(2) by simp
    have 3: "map fst ?new = [n..<n + length ?new]" using new(3) upt_shift[of n "length new"] by simp
    have 4: "length ?new \<le> length (h # hs)" using new(4) by simp
    have 5: "\<forall>c\<in>set (butlast ?new). falls_through (snd c)" using new(5) True by auto
    have 6: "\<not> falls_through r \<longrightarrow> ?new \<noteq> [] \<and> snd (last ?new) = r" using new(6) by auto
    have 7: "falls_through r \<longrightarrow> length ?new = length (h # hs) \<and> r = Some ErrUnhandledResponse
           \<and> (\<forall>c\<in>set ?new. falls_through (snd c))" using new(7) True by auto
    show ?thesis by (rule exI[of _ "?new"]) (intro conjI 1 2 3 4 5 6 7)
  qed
qed

lemma strings_Cut_before: "fst (strings_Cut s sep) = takeWhile (\<lambda>c. c \<noteq> sep) s"
  by (induction s) (auto split: prod.splits)

lemma ContentTypeHandler_cond:
  "ContentTypeHandler ct h s =
     (if content_type_matches ct (resp s) then h s else (Some ErrUnhandledResponse, s))"
  using strings_Cut_before[of "Header_Get (response.Header (resp s)) ''Content-Type''" "CHR '';''"]
  by (auto simp: ContentTypeHandler_def ConditionalHandler_def content_type_matches_def Let_def
           split: prod.splits)

lemma errors_Is_rename:
  "errors_Is (rename e) ErrSkipHandler = errors_Is e ErrUnhandledResponse"
  by (induction e) (auto simp: list_ex_iff)

lemma loop_renamed:
  "Endpoint_Do_loop (map renamed hs) s =
     (case HandlerChain_HandleResponse hs s of
        (r, s') \<Rightarrow>
          ((case r of None \<Rightarrow> Inr True
            | Some e \<Rightarrow> if e = ErrUnhandledResponse then Inr False else Inl (rename e)), s'))"
proof (induction hs arbitrary: s)
  case Nil
  show ?case by simp
next
  case (Cons h hs)
  obtain r s1 where h: "h s = (r, s1)" by (cases "h s")
  show ?case
  proof (cases r)
    case None
    with h show ?thesis by (simp add: renamed_def)
  next
    case (Some e)
    show ?thesis
    proof (cases "errors_Is e ErrUnhandledResponse")
      case True
      with h Some Cons.IH[of s1] show ?thesis by (simp add: renamed_def errors_Is_rename)
    next
      case False
      then have "e \<noteq> ErrUnhandledResponse" by auto
      with False h Some show ?thesis by (simp add: renamed_def errors_Is_rename)
    qed
  qed
qed

lemma handlers_renamed:
  "Endpoint_Do_handlers (map renamed hs) s =
     (case HandlerChain_HandleResponse hs s of (r, s') \<Rightarrow> (map_option result_rename r, s'))"
  by (simp add: Endpoint_Do_handlers_def loop_renamed result_rename_def
           split: prod.splits option.splits)

lemma recorded_loop_renamed:
  "Endpoint_Do_loop (recording_chain n (map renamed hs)) (s, map renamed_call c) =
     (case HandlerChain_HandleResponse (recording_chain n hs) (s, c) of
        (r, s', calls) \<Rightarrow>
          ((case r of None \<Rightarrow> Inr True
            | Some e \<Rightarrow> if e = ErrUnhandledResponse then Inr False else Inl (rename e)),
           s', map renamed_call calls))"
proof (induction hs arbitrary: n s c)
  case Nil
  show ?case by (simp add: recording_chain_Nil)
next
  case (Cons h hs)
  obtain r s1 where h: "h s = (r, s1)" by (cases "h s")
  show ?case
  proof (cases r)
    case None
    with h show ?thesis
      by (simp add: recording_chain_Cons recording_def renamed_def renamed_call_def)
  next
    case (Some e)
    show ?thesis
    proof (cases "errors_Is e ErrUnhandledResponse")
      case True
      with h Some Cons.IH[of "Suc n" s1 "c @ [(n, r)]"] show ?thesis
        by (simp add: recording_chain_Cons recording_def renamed_def errors_Is_rename
                      renamed_call_def)
    next
      case False
      then have "e \<noteq> ErrUnhandledResponse" by auto
      with False h Some show ?thesis
        by (simp add: recording_chain_Cons recording_def renamed_def errors_Is_rename
                      renamed_call_def)
    qed
  qed
qed





lemma discardBody_closed: "closed (response.Body (snd (discardBody r)))"
  by (simp add: discardBody_def io_Copy_Discard_def Body_Close_def split: prod.splits)

lemma discardBody_drained:
  "\<not> (closed (response.Body r) \<and> closed_read_err (response.Body r) \<noteq> None) \<Longrightarrow>
     unread (response.Body (snd (discardBody r))) = []"
  by (auto simp: discardBody_def io_Copy_Discard_def Body_Close_def split: prod.splits)

subsection \<open>The handler chain\<close>

text \<open>
  Claim C1. For every list of handlers and every state of destination and response,
  \<^verbatim>\<open>HandlerChain.HandleResponse\<close> invokes the handlers in order from the first one.
  The recorded calls are those of the positions \<open>0, 1, ...\<close> without a gap, each once;
  every call but the last returned an error that \<^verbatim>\<open>errors.Is\<close> matches with
  \<^verbatim>\<open>ErrUnhandledResponse\<close>. When the result of the chain is nil or an error that does
  not match, it is the result of the last handler called, returned unchanged, and no
  later handler is called. Otherwise all handlers were called, all fell through, and the
  result is \<^verbatim>\<open>ErrUnhandledResponse\<close>. Recording the calls changes neither the result
  nor the state.
\<close>

theorem HandlerChain_HandleResponse_order:
  "HandlerChain_HandleResponse (recording_chain 0 hs) (s, []) = (r, (s', calls)) \<Longrightarrow>
     HandlerChain_HandleResponse hs s = (r, s')
     \<and> map fst calls = [0..<length calls] \<and> length calls \<le> length hs
     \<and> (\<forall>c\<in>set (butlast calls). falls_through (snd c))
     \<and> (\<not> falls_through r \<longrightarrow> calls \<noteq> [] \<and> snd (last calls) = r)
     \<and> (falls_through r \<longrightarrow> length calls = length hs \<and> r = Some ErrUnhandledResponse
           \<and> (\<forall>c\<in>set calls. falls_through (snd c)))"
  using chain_calls_gen[of 0 hs s "[]" r s' calls] by auto

theorem HandlerChain_HandleResponse_order_witness:
  "HandlerChain_HandleResponse
     (recording_chain 0
        [test_handler ''handler 1'' (Some ErrUnhandledResponse),
         test_handler ''handler 2'' (Some (ErrorString ''test error'')),
         test_handler ''handler 3'' None])
     ([], []) =
     (Some (ErrorString ''test error''), [''handler 1'', ''handler 2''],
      [(0, Some ErrUnhandledResponse), (1, Some (ErrorString ''test error''))])
   \<and> HandlerChain_HandleResponse
        [test_handler ''handler 1'' (Some ErrUnhandledResponse),
         test_handler ''handler 2'' (Some (ErrorString ''test error'')),
         test_handler ''handler 3'' None] [] =
       (Some (ErrorString ''test error''), [''handler 1'', ''handler 2''])
   \<and> \<not> falls_through (Some (ErrorString ''test error''))"
proof -
  let ?hs = "[test_handler ''handler 1'' (Some ErrUnhandledResponse),
              test_handler ''handler 2'' (Some (ErrorString ''test error'')),
              test_handler ''handler 3'' None]"
  let ?calls = "[(0::nat, Some ErrUnhandledResponse), (1, Some (ErrorString ''test error''))]"
  have run: "HandlerChain_HandleResponse (recording_chain 0 ?hs) ([], []) =
      (Some (ErrorString ''test error''), [''handler 1'', ''handler 2''], ?calls)"
    by (simp add: recording_chain_def recording_def test_handler_def)
  have stop: "\<not> falls_through (Some (ErrorString ''test error''))"
    by (simp add: falls_through_def)
  from HandlerChain_HandleResponse_order[OF run] run stop show ?thesis by blast
qed

text \<open>
  Claim C9. The empty chain returns \<^verbatim>\<open>ErrUnhandledResponse\<close>. For every chain and
  every call of it, with the calls of its handlers recorded: if every handler that is
  called in it returns an error matching \<^verbatim>\<open>ErrUnhandledResponse\<close>, then all handlers
  of the chain have been called and the chain returns \<^verbatim>\<open>ErrUnhandledResponse\<close>; and
  the chain returns nil only if a handler of the chain returned nil in this call, namely
  the last one called, and it does return nil if one did. Recording the calls changes
  neither the result nor the state.
\<close>

theorem HandlerChain_HandleResponse_unhandled:
  "HandlerChain_HandleResponse [] s = (Some ErrUnhandledResponse, s)
   \<and> (HandlerChain_HandleResponse (recording_chain 0 hs) (s, []) = (r, (s', calls)) \<longrightarrow>
        HandlerChain_HandleResponse hs s = (r, s')
        \<and> map fst calls = [0..<length calls] \<and> length calls \<le> length hs
        \<and> ((\<forall>c\<in>set calls. falls_through (snd c)) \<longrightarrow>
              length calls = length hs \<and> r = Some ErrUnhandledResponse)
        \<and> (r = None \<longrightarrow> calls \<noteq> [] \<and> snd (last calls) = None)
        \<and> ((\<exists>c\<in>set calls. snd c = None) \<longrightarrow> r = None))"
proof (intro conjI impI)
  show "HandlerChain_HandleResponse [] s = (Some ErrUnhandledResponse, s)" by simp
next
  assume run: "HandlerChain_HandleResponse (recording_chain 0 hs) (s, []) = (r, (s', calls))"
  from chain_calls_gen[OF run] have g:
    "HandlerChain_HandleResponse hs s = (r, s')"
    "map fst calls = [0..<length calls]" "length calls \<le> length hs"
    "\<forall>c\<in>set (butlast calls). falls_through (snd c)"
    "\<not> falls_through r \<longrightarrow> calls \<noteq> [] \<and> snd (last calls) = r"
    "falls_through r \<longrightarrow> length calls = length hs \<and> r = Some ErrUnhandledResponse
       \<and> (\<forall>c\<in>set calls. falls_through (snd c))"
    by auto
  have through: "falls_through r" if all: "\<forall>c\<in>set calls. falls_through (snd c)"
  proof (rule ccontr)
    assume n: "\<not> falls_through r"
    with g(5) have "calls \<noteq> []" "snd (last calls) = r" by simp_all
    with all last_in_set[of calls] have "falls_through r" by auto
    with n show False by simp
  qed
  show "HandlerChain_HandleResponse hs s = (r, s')" by (rule g(1))
  show "map fst calls = [0..<length calls]" by (rule g(2))
  show "length calls \<le> length hs" by (rule g(3))
  show "length calls = length hs" if "\<forall>c\<in>set calls. falls_through (snd c)"
    using through[OF that] g(6) by simp
  show "r = Some ErrUnhandledResponse" if "\<forall>c\<in>set calls. falls_through (snd c)"
    using through[OF that] g(6) by simp
  show "calls \<noteq> []" if "r = None"
    using that g(5) by (simp add: falls_through_simps)
  show "snd (last calls) = None" if "r = None"
    using that g(5) by (simp add: falls_through_simps)
  show "r = None" if ex: "\<exists>c\<in>set calls. snd c = None"
  proof -
    from ex obtain c where c: "c \<in> set calls" "snd c = None" by blast
    then have ne: "calls \<noteq> []" by auto
    from c(2) have nf: "\<not> falls_through (snd c)" by (simp add: falls_through_simps)
    with g(4) have "c \<notin> set (butlast calls)" by blast
    moreover from arg_cong[OF append_butlast_last_id[OF ne], of set]
    have "set (butlast calls) \<union> {last calls} = set calls" by simp
    ultimately have cl: "c = last calls" using c(1) by blast
    from g(6) c(1) nf have "\<not> falls_through r" by blast
    with g(5) cl c(2) show ?thesis by simp
  qed
qed

theorem HandlerChain_HandleResponse_unhandled_witness:
  "HandlerChain_HandleResponse
     (recording_chain 0 [StatusHandler 204 DiscardBodyHandler,
                         ContentTypeHandler ''application/xml'' countingHandler])
     (json_state, []) =
     (Some ErrUnhandledResponse, json_state,
      [(0, Some ErrUnhandledResponse), (1, Some ErrUnhandledResponse)])
   \<and> falls_through (Some ErrUnhandledResponse)
   \<and> HandlerChain_HandleResponse
        [StatusHandler 204 DiscardBodyHandler,
         ContentTypeHandler ''application/xml'' countingHandler] json_state =
       (Some ErrUnhandledResponse, json_state)
   \<and> HandlerChain_HandleResponse
        (recording_chain 0 [StatusHandler 204 DiscardBodyHandler, StatusHandler 200 countingHandler])
        (json_state, []) =
       (None, json_state\<lparr>world := 1\<rparr>, [(0, Some ErrUnhandledResponse), (1, None)])
   \<and> snd (last [(0::nat, Some ErrUnhandledResponse), (1, None)]) = None
   \<and> HandlerChain_HandleResponse
        [StatusHandler 204 DiscardBodyHandler, StatusHandler 200 countingHandler] json_state =
       (None, json_state\<lparr>world := 1\<rparr>)"
proof -
  let ?hs1 = "[StatusHandler 204 DiscardBodyHandler,
               ContentTypeHandler ''application/xml'' countingHandler]"
  let ?hs2 = "[StatusHandler 204 DiscardBodyHandler, StatusHandler 200 countingHandler]"
  let ?c1 = "[(0::nat, Some ErrUnhandledResponse), (1, Some ErrUnhandledResponse)]"
  let ?c2 = "[(0::nat, Some ErrUnhandledResponse), (1, None)]"
  have ft: "falls_through (Some ErrUnhandledResponse)"
    by (simp add: falls_through_def)
  have run1: "HandlerChain_HandleResponse (recording_chain 0 ?hs1) (json_state, []) =
      (Some ErrUnhandledResponse, json_state, ?c1)"
    by (simp add: recording_chain_def recording_def StatusHandler_def ConditionalHandler_def
                  ContentTypeHandler_cond content_type_matches_def Header_Get_def
                  json_state_def json_response_def)
  have run2: "HandlerChain_HandleResponse (recording_chain 0 ?hs2) (json_state, []) =
      (None, json_state\<lparr>world := 1\<rparr>, ?c2)"
    by (simp add: recording_chain_def recording_def StatusHandler_def ConditionalHandler_def
                  countingHandler_def json_state_def json_response_def)
  have all1: "\<forall>c\<in>set ?c1. falls_through (snd c)" using ft by simp
  from HandlerChain_HandleResponse_unhandled[of json_state ?hs1 "Some ErrUnhandledResponse" json_state ?c1]
    run1 all1
  have a: "HandlerChain_HandleResponse ?hs1 json_state = (Some ErrUnhandledResponse, json_state)"
    by blast
  from HandlerChain_HandleResponse_unhandled[of json_state ?hs2 None "json_state\<lparr>world := 1\<rparr>" ?c2]
    run2
  have b: "HandlerChain_HandleResponse ?hs2 json_state = (None, json_state\<lparr>world := 1\<rparr>)"
    and c: "snd (last ?c2) = None"
    by blast+
  from ft run1 run2 a b c show ?thesis by blast
qed

subsection \<open>Conditional handlers\<close>

text \<open>
  Claim C3. For every content type and wrapped handler, the handler returned by
  \<^verbatim>\<open>ContentTypeHandler\<close> hands the response to the wrapped handler, and returns what
  that handler returns, if and only if the value of the Content-Type header of the
  response is the content type, or is the content type once cut off at its first
  semicolon; otherwise it returns \<^verbatim>\<open>ErrUnhandledResponse\<close> and the state is as it was,
  so the wrapped handler has not run.
\<close>

theorem ContentTypeHandler_dispatch:
  "(content_type_matches contentType (resp s) \<longrightarrow> ContentTypeHandler contentType h s = h s)
   \<and> (\<not> content_type_matches contentType (resp s) \<longrightarrow>
        ContentTypeHandler contentType h s = (Some ErrUnhandledResponse, s))"
  by (simp add: ContentTypeHandler_cond)

theorem ContentTypeHandler_dispatch_witness:
  "content_type_matches ''application/json'' (resp json_state)
   \<and> ContentTypeHandler ''application/json'' countingHandler json_state =
       (None, json_state\<lparr>world := 1\<rparr>)
   \<and> \<not> content_type_matches ''application/xml'' (resp json_state)
   \<and> ContentTypeHandler ''application/xml'' countingHandler json_state =
       (Some ErrUnhandledResponse, json_state)"
proof -
  have a: "content_type_matches ''application/json'' (resp json_state)"
    by (simp add: content_type_matches_def json_state_def json_response_def Header_Get_def)
  have b: "\<not> content_type_matches ''application/xml'' (resp json_state)"
    by (simp add: content_type_matches_def json_state_def json_response_def Header_Get_def)
  have c: "countingHandler json_state = (None, json_state\<lparr>world := 1\<rparr>)"
    by (simp add: countingHandler_def json_state_def)
  from a b c ContentTypeHandler_dispatch[of "''application/json''" json_state countingHandler]
    ContentTypeHandler_dispatch[of "''application/xml''" json_state countingHandler]
  show ?thesis by simp
qed

text \<open>
  Claim C5. For every status code and wrapped handler, the handler returned by
  \<^verbatim>\<open>StatusHandler\<close> invokes the wrapped handler and returns its result if and only
  if the status code of the response is the given one; otherwise it returns
  \<^verbatim>\<open>ErrUnhandledResponse\<close> and the state is as it was, so the wrapped handler has not
  run.
\<close>

theorem StatusHandler_dispatch:
  "(StatusCode (resp s) = statusCode \<longrightarrow> StatusHandler statusCode h s = h s)
   \<and> (StatusCode (resp s) \<noteq> statusCode \<longrightarrow>
        StatusHandler statusCode h s = (Some ErrUnhandledResponse, s))"
  by (simp add: StatusHandler_def ConditionalHandler_def)

theorem StatusHandler_dispatch_witness:
  "StatusCode (resp json_state) = 200
   \<and> StatusHandler 200 countingHandler json_state = (None, json_state\<lparr>world := 1\<rparr>)
   \<and> StatusCode (resp json_state) \<noteq> 201
   \<and> StatusHandler 201 countingHandler json_state = (Some ErrUnhandledResponse, json_state)"
proof -
  have a: "StatusCode (resp json_state) = 200"
    by (simp add: json_state_def json_response_def)
  have c: "countingHandler json_state = (None, json_state\<lparr>world := 1\<rparr>)"
    by (simp add: countingHandler_def json_state_def)
  from a c StatusHandler_dispatch[of json_state 200 countingHandler]
    StatusHandler_dispatch[of json_state 201 countingHandler]
  show ?thesis by simp
qed

text \<open>
  Claim C4. The handler returned by \<^verbatim>\<open>ProblemHandler\<close> recognises a problem by the
  content type of the response alone. For a response whose content type does not match
  \<^verbatim>\<open>problem.ContentType\<close> it returns \<^verbatim>\<open>ErrUnhandledResponse\<close> and leaves the state,
  and with it the body, as it was. For a response whose content type matches, it returns
  the error of \<^verbatim>\<open>problem.From\<close> or else the problem details as an error, never nil,
  and the body of the response is closed.
\<close>

theorem ProblemHandler_by_content_type:
  "(\<not> content_type_matches problem_ContentType (resp s) \<longrightarrow>
      ProblemHandler problem_From s = (Some ErrUnhandledResponse, s))
   \<and> (content_type_matches problem_ContentType (resp s) \<longrightarrow>
        fst (ProblemHandler problem_From s) =
          (case fst (problem_From (resp s)) of
             Inl e \<Rightarrow> Some e
           | Inr details \<Rightarrow> Some (ProblemDetails details))
        \<and> fst (ProblemHandler problem_From s) \<noteq> None
        \<and> snd (ProblemHandler problem_From s) =
            s\<lparr>resp := (snd (problem_From (resp s)))
                 \<lparr>response.Body := (response.Body (snd (problem_From (resp s))))\<lparr>closed := True\<rparr>\<rparr>\<rparr>
        \<and> closed (response.Body (resp (snd (ProblemHandler problem_From s)))))"
  by (auto simp: ProblemHandler_def ContentTypeHandler_cond Body_Close_def Let_def
           split: prod.splits sum.splits)

theorem ProblemHandler_by_content_type_witness:
  "\<not> content_type_matches problem_ContentType (resp json_state)
   \<and> ProblemHandler failing_From json_state = (Some ErrUnhandledResponse, json_state)
   \<and> content_type_matches problem_ContentType (resp problem_state)
   \<and> fst (ProblemHandler failing_From problem_state) = Some (ErrorString ''jsontext: invalid character'')
   \<and> closed (response.Body (resp (snd (ProblemHandler failing_From problem_state))))"
proof -
  have a: "\<not> content_type_matches problem_ContentType (resp json_state)"
    by (simp add: content_type_matches_def json_state_def json_response_def Header_Get_def
                  problem_ContentType_def)
  have b: "content_type_matches problem_ContentType (resp problem_state)"
    by (simp add: content_type_matches_def problem_state_def problem_response_def Header_Get_def
                  problem_ContentType_def)
  have c: "fst (failing_From (resp problem_state)) = Inl (ErrorString ''jsontext: invalid character'')"
    by (simp add: failing_From_def)
  from a b c ProblemHandler_by_content_type[of json_state failing_From]
    ProblemHandler_by_content_type[of problem_state failing_From]
  show ?thesis by simp
qed

subsection \<open>The two dispatch loops\<close>

text \<open>
  Claim C8. The handler chain and the handler loop of \<^verbatim>\<open>Endpoint.Do\<close> are
  equivalent under the renaming of \<^verbatim>\<open>ErrUnhandledResponse\<close> to
  \<^verbatim>\<open>ErrSkipHandler\<close> in what the handlers return and to \<^verbatim>\<open>ErrNotHandled\<close> in the
  result of an exhausted list: for every list of handlers and every state of
  destination and response, the loop run on the renamed handlers leaves the state the
  chain leaves and returns the renamed result of the chain; and with the calls recorded,
  both call the same handlers in the same order and stop at the same handler, the
  recorded results differing by the renaming only.
\<close>

theorem Endpoint_Do_handlers_equivalent:
  "Endpoint_Do_handlers (map renamed hs) s =
     (case HandlerChain_HandleResponse hs s of (r, s') \<Rightarrow> (map_option result_rename r, s'))
   \<and> Endpoint_Do_handlers (recording_chain 0 (map renamed hs)) (s, []) =
     (case HandlerChain_HandleResponse (recording_chain 0 hs) (s, []) of
        (r, s', calls) \<Rightarrow> (map_option result_rename r, s', map renamed_call calls))"
proof
  show "Endpoint_Do_handlers (map renamed hs) s =
     (case HandlerChain_HandleResponse hs s of (r, s') \<Rightarrow> (map_option result_rename r, s'))"
    by (rule handlers_renamed)
  show "Endpoint_Do_handlers (recording_chain 0 (map renamed hs)) (s, []) =
     (case HandlerChain_HandleResponse (recording_chain 0 hs) (s, []) of
        (r, s', calls) \<Rightarrow> (map_option result_rename r, s', map renamed_call calls))"
    using recorded_loop_renamed[of 0 hs s "[]"]
    by (simp add: Endpoint_Do_handlers_def result_rename_def split: prod.splits option.splits)
qed

theorem Endpoint_Do_handlers_equivalent_witness:
  "Endpoint_Do_handlers
     (recording_chain 0
        (map renamed
           [test_handler ''handler 1'' (Some ErrUnhandledResponse),
            test_handler ''handler 2'' (Some (ErrorString ''test error'')),
            test_handler ''handler 3'' None]))
     ([], []) =
     (Some (ErrorString ''test error''), [''handler 1'', ''handler 2''],
      [(0, Some ErrSkipHandler), (1, Some (ErrorString ''test error''))])
   \<and> Endpoint_Do_handlers
        (map renamed
           [test_handler ''handler 1'' (Some ErrUnhandledResponse),
            test_handler ''handler 2'' (Some (WrapError ''no'' ErrUnhandledResponse))])
        [] =
       (Some ErrNotHandled, [''handler 1'', ''handler 2''])"
proof -
  let ?hs = "[test_handler ''handler 1'' (Some ErrUnhandledResponse),
              test_handler ''handler 2'' (Some (ErrorString ''test error'')),
              test_handler ''handler 3'' None]"
  let ?hs2 = "[test_handler ''handler 1'' (Some ErrUnhandledResponse),
               test_handler ''handler 2'' (Some (WrapError ''no'' ErrUnhandledResponse))]"
  have run: "HandlerChain_HandleResponse (recording_chain 0 ?hs) ([], []) =
      (Some (ErrorString ''test error''), [''handler 1'', ''handler 2''],
       [(0, Some ErrUnhandledResponse), (1, Some (ErrorString ''test error''))])"
    by (simp add: recording_chain_def recording_def test_handler_def)
  have run2: "HandlerChain_HandleResponse ?hs2 [] =
      (Some ErrUnhandledResponse, [''handler 1'', ''handler 2''])"
    by (simp add: test_handler_def)
  from run run2 Endpoint_Do_handlers_equivalent[of ?hs "[]"]
    Endpoint_Do_handlers_equivalent[of ?hs2 "[]"]
  show ?thesis by (simp add: result_rename_def renamed_call_def)
qed

subsection \<open>Options\<close>

text \<open>
  Claim C10. When the value is encoded, the option returned by \<^verbatim>\<open>WithBodyJSON\<close>
  sets the Content-Type header to \<^verbatim>\<open>application/json\<close> only when the value of that
  header, as \<^verbatim>\<open>Header.Get\<close> gives it, is empty (the header is not set or is empty)
  when the option runs; a value that is not empty is left with the whole header as it
  was. The body, the content length and \<^verbatim>\<open>GetBody\<close> are set in both cases, and
  nothing else of the context or of the request changes.
\<close>

theorem WithBodyJSON_frame:
  assumes "json_Marshal v = Inr data"
    and "WithBodyJSON json_Marshal v (ctx, w) = (r, ctx', w')"
  shows "r = None \<and> w' = w \<and> Client ctx' = Client ctx \<and> Handler ctx' = Handler ctx
    \<and> (Header_Get (request.Header (Request ctx)) ''Content-Type'' = [] \<longrightarrow>
          request.Header (Request ctx') =
            (request.Header (Request ctx))(''Content-Type'' \<mapsto> [''application/json'']))
    \<and> (Header_Get (request.Header (Request ctx)) ''Content-Type'' \<noteq> [] \<longrightarrow>
          request.Header (Request ctx') = request.Header (Request ctx))
    \<and> request.Body (Request ctx') = Some (io_NopCloser_bytes_NewReader data)
    \<and> ContentLength (Request ctx') = int (length data)
    \<and> GetBody (Request ctx') = Some (io_NopCloser_bytes_NewReader data, None)
    \<and> Method (Request ctx') = Method (Request ctx)
    \<and> URL (Request ctx') = URL (Request ctx)"
  using assms by (auto simp: WithBodyJSON_def Let_def Header_Set_def)

theorem WithBodyJSON_frame_witness:
  "test_Marshal (Some 2) = Inr ''11''
   \<and> Header_Get (request.Header (Request (ctx_at ''/info''))) ''Content-Type'' = []
   \<and> request.Header (Request (fst (snd (WithBodyJSON test_Marshal (Some 2) (ctx_at ''/info'', ()))))) =
       [''Content-Type'' \<mapsto> [''application/json'']]
   \<and> ContentLength (Request (fst (snd (WithBodyJSON test_Marshal (Some 2) (ctx_at ''/info'', ()))))) = 2
   \<and> Header_Get (request.Header (Request ctx_typed)) ''Content-Type'' = ''application/my-content-type''
   \<and> request.Header (Request (fst (snd (WithBodyJSON test_Marshal (Some 2) (ctx_typed, ()))))) =
       [''Content-Type'' \<mapsto> [''application/my-content-type'']]"
proof -
  let ?c1 = "ctx_at ''/info''"
  let ?r1 = "WithBodyJSON test_Marshal (Some 2) (?c1, ())"
  let ?r2 = "WithBodyJSON test_Marshal (Some 2) (ctx_typed, ())"
  have m: "test_Marshal (Some 2) = Inr ''11''"
    by (simp add: test_Marshal_def numeral_2_eq_2)
  have h1: "Header_Get (request.Header (Request ?c1)) ''Content-Type'' = []"
    by (simp add: ctx_at_def Header_Get_def)
  have hdr1: "request.Header (Request ?c1) = Map.empty"
    by (simp add: ctx_at_def)
  have hdr2: "request.Header (Request ctx_typed) = [''Content-Type'' \<mapsto> [''application/my-content-type'']]"
    by (simp add: ctx_typed_def ctx_at_def WithHeader_def Header_Set_def)
  have h2: "Header_Get (request.Header (Request ctx_typed)) ''Content-Type'' = ''application/my-content-type''"
    by (simp add: hdr2 Header_Get_def)
  have e1: "?r1 = (fst ?r1, fst (snd ?r1), snd (snd ?r1))" by (simp only: prod.collapse)
  have e2: "?r2 = (fst ?r2, fst (snd ?r2), snd (snd ?r2))" by (simp only: prod.collapse)
  from WithBodyJSON_frame[OF m e1] h1 hdr1
  have a: "request.Header (Request (fst (snd ?r1))) = [''Content-Type'' \<mapsto> [''application/json'']]"
    and b: "ContentLength (Request (fst (snd ?r1))) = 2"
    by simp_all
  from WithBodyJSON_frame[OF m e2] h2 hdr2
  have c: "request.Header (Request (fst (snd ?r2))) = [''Content-Type'' \<mapsto> [''application/my-content-type'']]"
    by simp
  from m h1 h2 a b c show ?thesis by simp
qed

text \<open>When the value cannot be encoded, the option returns the error and changes nothing.\<close>

lemma WithBodyJSON_marshal_error:
  "json_Marshal v = Inl err \<Longrightarrow> WithBodyJSON json_Marshal v (ctx, w) = (Some err, ctx, w)"
  by (simp add: WithBodyJSON_def)

subsection \<open>Fetch\<close>

lemmas path_eval =
  pattern_ReplaceAllString_def pattern_match_def placeholder_match_def url_PathEscape_def
  shouldEscape_def is_alnum_def is_word_char_def is_digit_def regexp_extract_def group_text_def
  Let_def



text \<open>
  Claim C7, as the code has it. For every call of \<^verbatim>\<open>Fetch\<close> that obtains a response,
  with or without an error, \<^verbatim>\<open>Fetch\<close> runs \<^verbatim>\<open>discardBody\<close> on the response before
  it returns: the body is closed in every case, and it is read to its end unless it had
  been closed before and reading a closed body fails. The result of \<^verbatim>\<open>discardBody\<close> is
  dropped.
\<close>

theorem Fetch_discards_body:
  assumes "FetchWithResponse env method url opts w = ((t, Some r0, err), w')"
  shows "Fetch env method url opts w = ((t, err), Some (snd (discardBody r0)), w')
    \<and> closed (response.Body (snd (discardBody r0)))
    \<and> (\<not> (closed (response.Body r0) \<and> closed_read_err (response.Body r0) \<noteq> None) \<longrightarrow>
          unread (response.Body (snd (discardBody r0))) = [])"
  using assms discardBody_closed[of r0] discardBody_drained[of r0]
  by (simp add: Fetch_def)

text \<open>
  A handler that does not handle the response leaves its body alone, and \<^verbatim>\<open>Fetch\<close>
  drains and closes it.
\<close>

theorem Fetch_discards_body_witness:
  "FetchWithResponse test_env ''GET'' ''/info'' [WithHandler (StatusHandler 204 DiscardBodyHandler)] () =
     (([], Some problem_response, Some ErrUnhandledResponse), ())
   \<and> \<not> (closed (response.Body problem_response)
          \<and> closed_read_err (response.Body problem_response) \<noteq> None)
   \<and> Fetch test_env ''GET'' ''/info'' [WithHandler (StatusHandler 204 DiscardBodyHandler)] () =
       (([], Some ErrUnhandledResponse), Some (snd (discardBody problem_response)), ())
   \<and> closed (response.Body (snd (discardBody problem_response)))
   \<and> unread (response.Body (snd (discardBody problem_response))) = []"
proof -
  have run: "FetchWithResponse test_env ''GET'' ''/info''
               [WithHandler (StatusHandler 204 DiscardBodyHandler)] () =
             (([], Some problem_response, Some ErrUnhandledResponse), ())"
    by (simp add: FetchWithResponse_def test_env_def new_request_def WithHandler_def
                  StatusHandler_def ConditionalHandler_def problem_response_def)
  have open_body: "\<not> (closed (response.Body problem_response)
                        \<and> closed_read_err (response.Body problem_response) \<noteq> None)"
    by (simp add: problem_response_def http_body_def)
  from Fetch_discards_body[OF run] run open_body show ?thesis by blast
qed

text \<open>
  Claim C7 as it is written, that the body is drained, fails. The response announces
  problem details; the problem handler reads the beginning of the body, fails to decode
  it and closes the body; \<^verbatim>\<open>Fetch\<close> then cannot read the closed body, and returns
  with its remaining bytes unread.
\<close>

theorem Fetch_drained_counterexample:
  "fst (snd (Fetch test_env ''GET'' ''/info'' [] ())) = Some abandoned_response
   \<and> closed (response.Body abandoned_response)
   \<and> unread (response.Body abandoned_response) = ''json, and more of it''"
  by (simp add: Fetch_def FetchWithResponse_def test_env_def new_request_def ProblemHandler_def
                ContentTypeHandler_cond content_type_matches_def Header_Get_def
                problem_ContentType_def problem_response_def failing_From_def http_body_def
                Body_Close_def discardBody_def io_Copy_Discard_def abandoned_response_def)

subsection \<open>Path values\<close>

text \<open>
  Claim C2 says that every placeholder between slashes is replaced. The code replaces
  the matches of a pattern that takes the slash after a placeholder into the match, so
  a placeholder that follows another one directly is not matched: with the name
  \<^verbatim>\<open>id\<close>, the value \<^verbatim>\<open>1234\<close> and the path \<^verbatim>\<open>/{id}/{id}\<close> the option returns
  nil and leaves the path \<^verbatim>\<open>/1234/{id}\<close>.
\<close>

theorem WithPathValue_adjacent_placeholders:
  "WithPathValue ''id'' ''1234'' (ctx_at ''/{id}/{id}'', ()) = (None, ctx_at ''/1234/{id}'', ())"
  by (simp add: WithPathValue_def ctx_at_def path_eval)

text \<open>
  The escaped value is also used as a template: \<^verbatim>\<open>url.PathEscape\<close> keeps the dollar
  sign, and \<^verbatim>\<open>$1\<close> in the value is replaced by the first group of the match.
\<close>

lemma WithPathValue_dollar_value:
  "url_PathEscape ''$1'' = ''$1''
   \<and> WithPathValue ''id'' ''$1'' (ctx_at ''/api/product/{id}'', ()) =
       (None, ctx_at ''/api/product//'', ())"
  by (simp add: WithPathValue_def ctx_at_def path_eval)

end
